theory Spec2Isabelle
  imports Complex_Main "HOL-Library.Char_ord"
begin

section \<open>JavaScript numbers\<close>

text \<open>
  The tax engine computes with JavaScript numbers. A number is modelled as \<open>NaN\<close>, one of
  the two infinities, or a finite value. Finite values are exact rationals: the rounding
  of IEEE-754 binary64 arithmetic, overflow to an infinity and the sign of zero are not
  modelled in the operations below. The rounding and the overflow are added, for
  \<open>calculateTax\<close>, in the section on the bracket tax in rounded arithmetic. The special
  values are kept because the source uses them: the last bracket of each table has
  \<open>max: Infinity\<close>, and \<open>parseFloat\<close> yields \<open>NaN\<close> on text that is not a number.
\<close>

datatype jsnum = NaN | NegInf | Fin rat | PosInf

fun js_neg :: "jsnum \<Rightarrow> jsnum" where
  "js_neg NaN = NaN"
| "js_neg NegInf = PosInf"
| "js_neg PosInf = NegInf"
| "js_neg (Fin a) = Fin (- a)"

fun js_add :: "jsnum \<Rightarrow> jsnum \<Rightarrow> jsnum" where
  "js_add NaN y = NaN"
| "js_add x NaN = NaN"
| "js_add PosInf NegInf = NaN"
| "js_add NegInf PosInf = NaN"
| "js_add PosInf y = PosInf"
| "js_add x PosInf = PosInf"
| "js_add NegInf y = NegInf"
| "js_add x NegInf = NegInf"
| "js_add (Fin a) (Fin b) = Fin (a + b)"

definition js_sub :: "jsnum \<Rightarrow> jsnum \<Rightarrow> jsnum" where
  "js_sub x y = js_add x (js_neg y)"

text \<open>The sign of a number that is not \<open>NaN\<close>: \<open>-1\<close>, \<open>0\<close> or \<open>1\<close>.\<close>

fun js_sign :: "jsnum \<Rightarrow> rat" where
  "js_sign NaN = 0"
| "js_sign NegInf = - 1"
| "js_sign PosInf = 1"
| "js_sign (Fin a) = sgn a"

fun js_mul :: "jsnum \<Rightarrow> jsnum \<Rightarrow> jsnum" where
  "js_mul NaN y = NaN"
| "js_mul x NaN = NaN"
| "js_mul (Fin a) (Fin b) = Fin (a * b)"
| "js_mul x y =
     (if js_sign x * js_sign y = 0 then NaN
      else if js_sign x * js_sign y > 0 then PosInf else NegInf)"

text \<open>Division; a zero divisor counts as \<open>+0\<close>.\<close>

fun js_div :: "jsnum \<Rightarrow> jsnum \<Rightarrow> jsnum" where
  "js_div NaN y = NaN"
| "js_div x NaN = NaN"
| "js_div (Fin a) (Fin b) =
     (if b \<noteq> 0 then Fin (a / b)
      else if a = 0 then NaN else if a > 0 then PosInf else NegInf)"
| "js_div (Fin a) y = Fin 0"
| "js_div x (Fin b) = (if js_sign x * (if b < 0 then - 1 else 1) > 0 then PosInf else NegInf)"
| "js_div x y = NaN"

text \<open>Comparisons: every comparison with \<open>NaN\<close> is false.\<close>

fun js_le :: "jsnum \<Rightarrow> jsnum \<Rightarrow> bool" where
  "js_le NaN y = False"
| "js_le x NaN = False"
| "js_le NegInf y = True"
| "js_le x PosInf = True"
| "js_le PosInf y = False"
| "js_le x NegInf = False"
| "js_le (Fin a) (Fin b) = (a \<le> b)"

fun js_lt :: "jsnum \<Rightarrow> jsnum \<Rightarrow> bool" where
  "js_lt NaN y = False"
| "js_lt x NaN = False"
| "js_lt PosInf y = False"
| "js_lt x NegInf = False"
| "js_lt NegInf y = True"
| "js_lt x PosInf = True"
| "js_lt (Fin a) (Fin b) = (a < b)"

definition js_gt :: "jsnum \<Rightarrow> jsnum \<Rightarrow> bool" where
  "js_gt x y = js_lt y x"

definition js_ge :: "jsnum \<Rightarrow> jsnum \<Rightarrow> bool" where
  "js_ge x y = js_le y x"

text \<open>\<open>Math.max\<close> and \<open>Math.min\<close> of two arguments: \<open>NaN\<close> when either is \<open>NaN\<close>.\<close>

definition Math_max :: "jsnum \<Rightarrow> jsnum \<Rightarrow> jsnum" where
  "Math_max x y = (if x = NaN \<or> y = NaN then NaN else if js_le x y then y else x)"

definition Math_min :: "jsnum \<Rightarrow> jsnum \<Rightarrow> jsnum" where
  "Math_min x y = (if x = NaN \<or> y = NaN then NaN else if js_le x y then x else y)"

text \<open>\<open>Math.round\<close>: the nearest integer, a tie going up.\<close>

fun Math_round :: "jsnum \<Rightarrow> jsnum" where
  "Math_round (Fin a) = Fin (of_int \<lfloor>a + 1 / 2\<rfloor>)"
| "Math_round x = x"

text \<open>\<open>x || 0\<close> on a number: \<open>NaN\<close> and zero are falsy.\<close>

definition or_zero :: "jsnum \<Rightarrow> jsnum" where
  "or_zero x = (if x = NaN \<or> x = Fin 0 then Fin 0 else x)"

section \<open>Property lookup on an object literal\<close>

text \<open>
  \<open>obj[key]\<close> on an object literal finds the literal's own properties and, failing
  that, the properties every object inherits from \<open>Object.prototype\<close>. The inherited
  values are functions (and the prototype object itself for \<open>__proto__\<close>): truthy, not
  numbers and not iterable. Any other key gives \<open>undefined\<close>.
\<close>

definition object_prototype_names :: "string list" where
  "object_prototype_names =
     [''constructor'', ''__defineGetter__'', ''__defineSetter__'', ''hasOwnProperty'',
      ''__lookupGetter__'', ''__lookupSetter__'', ''isPrototypeOf'',
      ''propertyIsEnumerable'', ''toString'', ''valueOf'', ''__proto__'',
      ''toLocaleString'']"

datatype 'a property = Own 'a | Inherited | Undefined

definition get_property :: "(string \<times> 'a) list \<Rightarrow> string \<Rightarrow> 'a property" where
  "get_property obj key =
     (case map_of obj key of
        Some v \<Rightarrow> Own v
      | None \<Rightarrow> if key \<in> set object_prototype_names then Inherited else Undefined)"

section \<open>The tax calculation functions\<close>

datatype error = TypeError | ValidationError | ComputationError

subsection \<open>calculateTax\<close>

record bracket =
  min_bound :: jsnum
  max_bound :: jsnum
  rate :: jsnum

definition mk_bracket :: "jsnum \<Rightarrow> jsnum \<Rightarrow> rat \<Rightarrow> bracket" where
  "mk_bracket lo hi r = \<lparr>min_bound = lo, max_bound = hi, rate = Fin r\<rparr>"

definition single_brackets :: "bracket list" where
  "single_brackets =
     [mk_bracket (Fin 0) (Fin 11000) (10 / 100),
      mk_bracket (Fin 11001) (Fin 44725) (12 / 100),
      mk_bracket (Fin 44726) (Fin 95375) (22 / 100),
      mk_bracket (Fin 95376) (Fin 182050) (24 / 100),
      mk_bracket (Fin 182051) (Fin 231250) (32 / 100),
      mk_bracket (Fin 231251) (Fin 578125) (35 / 100),
      mk_bracket (Fin 578126) PosInf (37 / 100)]"

definition married_brackets :: "bracket list" where
  "married_brackets =
     [mk_bracket (Fin 0) (Fin 22000) (10 / 100),
      mk_bracket (Fin 22001) (Fin 89450) (12 / 100),
      mk_bracket (Fin 89451) (Fin 190750) (22 / 100),
      mk_bracket (Fin 190751) (Fin 364200) (24 / 100),
      mk_bracket (Fin 364201) (Fin 462500) (32 / 100),
      mk_bracket (Fin 462501) (Fin 693750) (35 / 100),
      mk_bracket (Fin 693751) PosInf (37 / 100)]"

definition taxBrackets :: "(string \<times> bracket list) list" where
  "taxBrackets = [(''single'', single_brackets), (''married'', married_brackets)]"

text \<open>
  The \<open>for\<close> loop over the brackets, on the pair \<open>(totalTax, remainingIncome)\<close>. The
  \<open>break\<close> returns the pair as it is.
\<close>

fun walk_brackets :: "bracket list \<Rightarrow> jsnum \<times> jsnum \<Rightarrow> jsnum \<times> jsnum" where
  "walk_brackets [] st = st"
| "walk_brackets (b # bs) (totalTax, remainingIncome) =
     (if js_le remainingIncome (Fin 0) then (totalTax, remainingIncome)
      else
        let taxableAtThisBracket =
              Math_min remainingIncome (js_add (js_sub (max_bound b) (min_bound b)) (Fin 1))
        in if js_gt taxableAtThisBracket (Fin 0)
           then walk_brackets bs
                  (js_add totalTax (js_mul taxableAtThisBracket (rate b)),
                   js_sub remainingIncome taxableAtThisBracket)
           else walk_brackets bs (totalTax, remainingIncome))"

text \<open>
  \<open>taxBrackets[filingStatus] || taxBrackets.single\<close>: an own property is the table, an
  undefined one falls back to the single table, and an inherited one is kept (it is
  truthy), on which the \<open>for ... of\<close> loop throws a \<open>TypeError\<close>.
\<close>

definition calculateTax :: "jsnum \<Rightarrow> string \<Rightarrow> jsnum \<Rightarrow> error + jsnum" where
  "calculateTax income_arg filingStatus_arg deductions =
     (let brackets = (case get_property taxBrackets filingStatus_arg of
                        Own bs \<Rightarrow> Some bs
                      | Undefined \<Rightarrow> Some single_brackets
                      | Inherited \<Rightarrow> None);
          taxableIncome = Math_max (Fin 0) (js_sub income_arg deductions)
      in case brackets of
           None \<Rightarrow> Inl TypeError
         | Some bs \<Rightarrow>
             let totalTax = fst (walk_brackets bs (Fin 0, taxableIncome))
             in Inr (js_div (Math_round (js_mul totalTax (Fin 100))) (Fin 100)))"

subsection \<open>calculateStandardDeduction\<close>

definition standardDeductions :: "(string \<times> rat) list" where
  "standardDeductions =
     [(''single'', 13850), (''married'', 27700), (''marriedSeparate'', 13850),
      (''headOfHousehold'', 20800)]"

text \<open>
  For a filing status that names an inherited property the looked-up value is a
  function or an object, and the result is not a number. Every later use of it goes
  through a numeric conversion (\<open>Math.max\<close>, subtraction), which gives \<open>NaN\<close>; the
  model returns that \<open>NaN\<close>.
\<close>

definition calculateStandardDeduction :: "string \<Rightarrow> int \<Rightarrow> jsnum" where
  "calculateStandardDeduction filingStatus_arg age_arg =
     (case get_property standardDeductions filingStatus_arg of
        Inherited \<Rightarrow> NaN
      | p \<Rightarrow>
          let deduction = (case p of Own d \<Rightarrow> Fin d | _ \<Rightarrow> Fin 13850)
          in if age_arg \<ge> 65
             then js_add deduction (if filingStatus_arg = ''married'' then Fin 1500 else Fin 1850)
             else deduction)"

subsection \<open>calculateEITC\<close>

record eitc_limits =
  single :: jsnum
  married :: jsnum
  credit :: jsnum

text \<open>
  The keys of \<open>eitcLimits\<close> are the numbers 0 to 3; the child count is an integer, so
  no inherited property can be hit.
\<close>

definition eitcLimits :: "(int \<times> eitc_limits) list" where
  "eitcLimits =
     [(0, \<lparr>single = Fin 17640, married = Fin 23260, credit = Fin 600\<rparr>),
      (1, \<lparr>single = Fin 46560, married = Fin 52918, credit = Fin 3995\<rparr>),
      (2, \<lparr>single = Fin 51567, married = Fin 58250, credit = Fin 6604\<rparr>),
      (3, \<lparr>single = Fin 55529, married = Fin 62044, credit = Fin 7430\<rparr>)]"

definition calculateEITC :: "jsnum \<Rightarrow> string \<Rightarrow> int \<Rightarrow> jsnum" where
  "calculateEITC income_arg filingStatus_arg children =
     (let childCount = min children 3
      in case map_of eitcLimits childCount of
           None \<Rightarrow> Fin 0
         | Some limits \<Rightarrow>
             let incomeLimit = (if filingStatus_arg = ''married'' then married limits
                                else single limits)
             in if js_gt income_arg incomeLimit then Fin 0 else credit limits)"

section \<open>Parsing the request fields\<close>

text \<open>
  The fields of the request body are strings, or absent. \<open>parseFloat\<close> and
  \<open>parseInt\<close> skip leading white space, read an optional sign and then the longest
  prefix that is a number; the rest of the string is ignored. White space is the ASCII
  white space (characters are bytes here).
\<close>

definition is_space :: "char \<Rightarrow> bool" where
  "is_space c = (c \<in> set [CHR '' '', CHR 0x09, CHR 0x0A, CHR 0x0B, CHR 0x0C, CHR 0x0D])"

definition is_digit :: "char \<Rightarrow> bool" where
  "is_digit c = (CHR ''0'' \<le> c \<and> c \<le> CHR ''9'')"

definition digit_value :: "char \<Rightarrow> nat" where
  "digit_value c =
     (if CHR ''0'' \<le> c \<and> c \<le> CHR ''9'' then of_char c - 48
      else if CHR ''a'' \<le> c \<and> c \<le> CHR ''f'' then of_char c - 87
      else of_char c - 55)"

definition is_hex_digit :: "char \<Rightarrow> bool" where
  "is_hex_digit c =
     (is_digit c \<or> (CHR ''a'' \<le> c \<and> c \<le> CHR ''f'') \<or> (CHR ''A'' \<le> c \<and> c \<le> CHR ''F''))"

definition digits_value :: "nat \<Rightarrow> string \<Rightarrow> nat" where
  "digits_value radix ds = foldl (\<lambda>acc c. radix * acc + digit_value c) 0 ds"

text \<open>An optional sign: whether it is a minus, and the rest of the string.\<close>

fun read_sign :: "string \<Rightarrow> bool \<times> string" where
  "read_sign [] = (False, [])"
| "read_sign (c # cs) =
     (if c = CHR ''-'' then (True, cs) else if c = CHR ''+'' then (False, cs)
      else (False, c # cs))"

text \<open>The exponent part \<open>e\<close>, sign, digits; 0 when there is none.\<close>

fun read_exponent :: "string \<Rightarrow> int" where
  "read_exponent [] = 0"
| "read_exponent (c # cs) =
     (if c = CHR ''e'' \<or> c = CHR ''E''
      then (let (neg, ds) = read_sign cs; n = int (digits_value 10 (takeWhile is_digit ds))
            in if neg then - n else n)
      else 0)"

definition scale10 :: "rat \<Rightarrow> int \<Rightarrow> rat" where
  "scale10 m e = (if e \<ge> 0 then m * 10 ^ nat e else m / 10 ^ nat (- e))"

definition parseFloat :: "string \<Rightarrow> jsnum" where
  "parseFloat s =
     (let (neg, u) = read_sign (dropWhile is_space s)
      in if take 8 u = ''Infinity'' then (if neg then NegInf else PosInf)
         else
           let ip = takeWhile is_digit u;
               r1 = dropWhile is_digit u;
               (fp, r2) = (case r1 of
                             [] \<Rightarrow> ([], [])
                           | c # cs \<Rightarrow> if c = CHR ''.''
                                       then (takeWhile is_digit cs, dropWhile is_digit cs)
                                       else ([], r1))
           in if ip = [] \<and> fp = [] then NaN
              else
                let m = of_nat (digits_value 10 ip)
                          + of_nat (digits_value 10 fp) / 10 ^ length fp;
                    v = scale10 m (read_exponent r2)
                in Fin (if neg then - v else v))"

text \<open>
  \<open>parseInt\<close> without a radix: hexadecimal after \<open>0x\<close>, decimal otherwise. The result
  is an integer, or \<open>None\<close> for \<open>NaN\<close>.
\<close>

definition parseInt :: "string \<Rightarrow> int option" where
  "parseInt s =
     (let (neg, u) = read_sign (dropWhile is_space s);
          hex = (take 2 u = ''0x'' \<or> take 2 u = ''0X'');
          ds = (if hex then takeWhile is_hex_digit (drop 2 u) else takeWhile is_digit u);
          n = int (digits_value (if hex then 16 else 10) ds)
      in if ds = [] then None else Some (if neg then - n else n))"

text \<open>An absent field is \<open>undefined\<close>, which both parsers turn into \<open>NaN\<close>.\<close>

definition float_field :: "string option \<Rightarrow> jsnum" where
  "float_field f = or_zero (case f of None \<Rightarrow> NaN | Some s \<Rightarrow> parseFloat s)"

definition int_field :: "string option \<Rightarrow> int" where
  "int_field f = (case f of None \<Rightarrow> 0 | Some s \<Rightarrow> (case parseInt s of None \<Rightarrow> 0 | Some n \<Rightarrow> n))"

text \<open>\<open>!field\<close>: an absent field and the empty string are falsy.\<close>

definition falsy :: "string option \<Rightarrow> bool" where
  "falsy f = (f = None \<or> f = Some [])"

section \<open>The request handler of /calculate-tax\<close>

text \<open>
  The body of the request: every field is a string or absent, as the client's form
  posts them. Bodies whose fields hold JSON values of other types are the subject of
  the section on request bodies with values of any type, which extends this handler. The
  uploaded files are passed through as descriptors (file name, MIME type, size).
\<close>

record request =
  filingStatus :: "string option"
  income :: "string option"
  age :: "string option"
  dependents :: "string option"
  itemizedDeductions :: "string option"
  useStandardDeduction :: "string option"
  w2Income :: "string option"
  selfEmploymentIncome :: "string option"
  interestIncome :: "string option"
  dividendIncome :: "string option"
  capitalGains :: "string option"
  otherIncome :: "string option"
  files :: "(string \<times> string \<times> nat) list option"

text \<open>
  The response, one field for each leaf of the JSON object, named by its path. The
  time stamp \<open>calculationDate\<close> and the fixed disclaimer are left out.
\<close>

record tax_result =
  taxYear :: int
  result_filingStatus :: string
  taxpayerInfo_age :: int
  taxpayerInfo_dependents :: int
  income_totalGrossIncome :: jsnum
  breakdown_primary :: jsnum
  breakdown_w2 :: jsnum
  breakdown_selfEmployment :: jsnum
  breakdown_interest :: jsnum
  breakdown_dividends :: jsnum
  breakdown_capitalGains :: jsnum
  breakdown_other :: jsnum
  deductions_standardDeduction :: jsnum
  deductions_itemizedDeductions :: jsnum
  deductions_deductionUsed :: jsnum
  deductions_deductionType :: string
  taxCalculation_taxableIncome :: jsnum
  taxCalculation_federalIncomeTax :: jsnum
  taxCalculation_selfEmploymentTax :: jsnum
  taxCalculation_earnedIncomeCredit :: jsnum
  taxCalculation_totalTaxLiability :: jsnum
  refundOrOwed_estimatedWithholding :: jsnum
  refundOrOwed_amount :: jsnum
  refundOrOwed_type :: string
  uploadedDocuments :: "(string \<times> string \<times> nat) list"

text \<open>
  The handler answers 400 (\<open>ValidationError\<close>) when a required field is falsy, and 500
  (\<open>ComputationError\<close>) when the calculation throws, which the \<open>catch\<close> block turns
  into the error response. Otherwise it answers with the result.
\<close>

definition calculate_tax_handler :: "request \<Rightarrow> error + tax_result" where
  "calculate_tax_handler req =
     (if falsy (filingStatus req) \<or> falsy (income req) then Inl ValidationError
      else
        let fs = (case filingStatus req of Some s \<Rightarrow> s | None \<Rightarrow> []);
            totalIncome = float_field (income req);
            userAge = int_field (age req);
            numDependents = int_field (dependents req);
            itemizedDeductionAmount = float_field (itemizedDeductions req);
            w2 = float_field (w2Income req);
            selfEmployment = float_field (selfEmploymentIncome req);
            interest = float_field (interestIncome req);
            dividends = float_field (dividendIncome req);
            capGains = float_field (capitalGains req);
            other = float_field (otherIncome req);
            totalGrossIncome =
              js_add (js_add (js_add (js_add (js_add (js_add totalIncome w2) selfEmployment)
                interest) dividends) capGains) other;
            standardDeduction = calculateStandardDeduction fs userAge;
            deductionAmount =
              (if useStandardDeduction req = Some ''false''
               then Math_max itemizedDeductionAmount standardDeduction
               else standardDeduction)
        in case calculateTax totalGrossIncome fs deductionAmount of
             Inl e \<Rightarrow> Inl ComputationError
           | Inr federalTax \<Rightarrow>
               let eitc = calculateEITC totalGrossIncome fs numDependents;
                   selfEmploymentTax = js_mul selfEmployment (Fin (1413 / 10000));
                   totalTaxLiability = js_sub (js_add federalTax selfEmploymentTax) eitc;
                   estimatedWithholding = js_mul w2 (Fin (20 / 100));
                   refundOrOwed = js_sub estimatedWithholding totalTaxLiability
               in Inr \<lparr>taxYear = 2024,
                       result_filingStatus = fs,
                       taxpayerInfo_age = userAge,
                       taxpayerInfo_dependents = numDependents,
                       income_totalGrossIncome = totalGrossIncome,
                       breakdown_primary = totalIncome,
                       breakdown_w2 = w2,
                       breakdown_selfEmployment = selfEmployment,
                       breakdown_interest = interest,
                       breakdown_dividends = dividends,
                       breakdown_capitalGains = capGains,
                       breakdown_other = other,
                       deductions_standardDeduction = standardDeduction,
                       deductions_itemizedDeductions = itemizedDeductionAmount,
                       deductions_deductionUsed = deductionAmount,
                       deductions_deductionType =
                         (if useStandardDeduction req = Some ''false'' then ''itemized''
                          else ''standard''),
                       taxCalculation_taxableIncome =
                         Math_max (Fin 0) (js_sub totalGrossIncome deductionAmount),
                       taxCalculation_federalIncomeTax = federalTax,
                       taxCalculation_selfEmploymentTax = selfEmploymentTax,
                       taxCalculation_earnedIncomeCredit = eitc,
                       taxCalculation_totalTaxLiability = Math_max (Fin 0) totalTaxLiability,
                       refundOrOwed_estimatedWithholding = estimatedWithholding,
                       refundOrOwed_amount = refundOrOwed,
                       refundOrOwed_type = (if js_ge refundOrOwed (Fin 0) then ''refund''
                                            else ''owed''),
                       uploadedDocuments = (case files req of Some fl \<Rightarrow> fl | None \<Rightarrow> [])\<rparr>)"

text \<open>A request with only the given fields; every other field is absent.\<close>

definition empty_request :: request where
  "empty_request =
     \<lparr>filingStatus = None, income = None, age = None, dependents = None,
      itemizedDeductions = None, useStandardDeduction = None, w2Income = None,
      selfEmploymentIncome = None, interestIncome = None, dividendIncome = None,
      capitalGains = None, otherIncome = None, files = None\<rparr>"

text \<open>A field of the response, when there is one.\<close>

definition response_field :: "(tax_result \<Rightarrow> 'a) \<Rightarrow> error + tax_result \<Rightarrow> 'a option" where
  "response_field f resp = (case resp of Inl e \<Rightarrow> None | Inr r \<Rightarrow> Some (f r))"

text \<open>An amount is in whole cents when it has at most two decimal places.\<close>

definition whole_cents :: "rat \<Rightarrow> bool" where
  "whole_cents a = (of_int \<lfloor>a * 100\<rfloor> = a * 100)"

section \<open>Requests used as examples\<close>

text \<open>The two scenarios of the specification.\<close>

definition scenario_single :: request where
  "scenario_single =
     empty_request\<lparr>filingStatus := Some ''single'', income := Some ''50000'',
                   age := Some ''30'', dependents := Some ''0''\<rparr>"

definition scenario_married :: request where
  "scenario_married =
     empty_request\<lparr>filingStatus := Some ''married'', income := Some ''0'',
                   w2Income := Some ''30000'', selfEmploymentIncome := Some ''0'',
                   dependents := Some ''2''\<rparr>"

text \<open>A filer with several income sources who elects to itemize.\<close>

definition sample_request :: request where
  "sample_request =
     empty_request\<lparr>filingStatus := Some ''single'', income := Some ''40000'',
                   age := Some ''40'', dependents := Some ''1'',
                   itemizedDeductions := Some ''20000'',
                   useStandardDeduction := Some ''false'',
                   w2Income := Some ''20000.01'',
                   selfEmploymentIncome := Some ''10000.50''\<rparr>"

definition sample_result :: tax_result where
  "sample_result =
     \<lparr>taxYear = 2024, result_filingStatus = ''single'',
      taxpayerInfo_age = 40, taxpayerInfo_dependents = 1,
      income_totalGrossIncome = Fin (7000051 / 100),
      breakdown_primary = Fin 40000, breakdown_w2 = Fin (2000001 / 100),
      breakdown_selfEmployment = Fin (1000050 / 100),
      breakdown_interest = Fin 0, breakdown_dividends = Fin 0,
      breakdown_capitalGains = Fin 0, breakdown_other = Fin 0,
      deductions_standardDeduction = Fin 13850,
      deductions_itemizedDeductions = Fin 20000,
      deductions_deductionUsed = Fin 20000,
      deductions_deductionType = ''itemized'',
      taxCalculation_taxableIncome = Fin (5000051 / 100),
      taxCalculation_federalIncomeTax = Fin (630749 / 100),
      taxCalculation_selfEmploymentTax = Fin (141307065 / 100000),
      taxCalculation_earnedIncomeCredit = Fin 0,
      taxCalculation_totalTaxLiability = Fin (772056065 / 100000),
      refundOrOwed_estimatedWithholding = Fin (4000002 / 1000),
      refundOrOwed_amount = Fin (- (372055865 / 100000)),
      refundOrOwed_type = ''owed'', uploadedDocuments = []\<rparr>"

text \<open>A filer whose credit is larger than the tax.\<close>

definition low_income_request :: request where
  "low_income_request =
     empty_request\<lparr>filingStatus := Some ''single'', income := Some ''1000''\<rparr>"


definition negative_w2_request :: request where
  "negative_w2_request =
     empty_request\<lparr>filingStatus := Some ''single'', income := Some ''1'',
                   w2Income := Some ''-5''\<rparr>"

text \<open>The filing status names a property that every object inherits.\<close>

definition inherited_status_request :: request where
  "inherited_status_request =
     empty_request\<lparr>filingStatus := Some ''constructor'', income := Some ''50000''\<rparr>"

section \<open>Request bodies with values of any type\<close>

text \<open>
  The body is parsed by \<open>express.json\<close>, \<open>express.urlencoded\<close> or \<open>multer\<close>, so a
  field can hold any JSON value, not only a string. The handler uses a field in three
  ways: it tests its truthiness (the guard \<open>!filingStatus || !income\<close>), it converts it to
  a string (\<open>parseFloat\<close>, \<open>parseInt\<close> and the property lookups
  \<open>taxBrackets[filingStatus]\<close> and \<open>standardDeductions[filingStatus]\<close>), and it compares
  it with a string by \<open>===\<close>. A value is modelled by what these three uses see of it:

  \<^item> \<open>Absent\<close>: the field is missing, its value is \<open>undefined\<close>;
  \<^item> \<open>Str s\<close>: the string \<open>s\<close>;
  \<^item> \<open>NonStr t s\<close>: a value that is not a string, with its truthiness \<open>t\<close> and its
    conversion to a string \<open>s\<close>. The number 0 is \<open>NonStr False ''0''\<close>, \<open>false\<close> is
    \<open>NonStr False ''false''\<close>, \<open>null\<close> is \<open>NonStr False ''null''\<close>, the number 12.5 is
    \<open>NonStr True ''12.5''\<close>, \<open>true\<close> is \<open>NonStr True ''true''\<close>, the array of 1 and 2 is
    \<open>NonStr True ''1,2''\<close> and a plain object is \<open>NonStr True ''[object Object]''\<close>;
  \<^item> \<open>Unconvertible\<close>: an object with an own property \<open>toString\<close> that is not a
    function, or an array that holds one: it is truthy, and converting it to a string
    throws a \<open>TypeError\<close>.
\<close>

datatype js_value = Absent | Str string | NonStr bool string | Unconvertible

definition truthy :: "js_value \<Rightarrow> bool" where
  "truthy v =
     (case v of Absent \<Rightarrow> False | Str s \<Rightarrow> s \<noteq> [] | NonStr t s \<Rightarrow> t | Unconvertible \<Rightarrow> True)"

definition to_string :: "js_value \<Rightarrow> error + string" where
  "to_string v =
     (case v of Absent \<Rightarrow> Inr ''undefined'' | Str s \<Rightarrow> Inr s | NonStr t s \<Rightarrow> Inr s
      | Unconvertible \<Rightarrow> Inl TypeError)"

definition number_value :: "js_value \<Rightarrow> error + jsnum" where
  "number_value v =
     (case to_string v of Inl e \<Rightarrow> Inl e | Inr s \<Rightarrow> Inr (or_zero (parseFloat s)))"

definition integer_value :: "js_value \<Rightarrow> error + int" where
  "integer_value v =
     (case to_string v of
        Inl e \<Rightarrow> Inl e
      | Inr s \<Rightarrow> Inr (case parseInt s of None \<Rightarrow> 0 | Some n \<Rightarrow> n))"

text \<open>
  The three tax functions on a filing status of any type. The property lookup converts
  the status to a string; the comparison \<open>filingStatus === 'married'\<close> holds for the
  string itself only.
\<close>

definition calculateTax_value :: "jsnum \<Rightarrow> js_value \<Rightarrow> jsnum \<Rightarrow> error + jsnum" where
  "calculateTax_value income_arg filingStatus_arg deductions =
     (case to_string filingStatus_arg of
        Inl e \<Rightarrow> Inl e
      | Inr k \<Rightarrow> calculateTax income_arg k deductions)"

definition calculateStandardDeduction_value :: "js_value \<Rightarrow> int \<Rightarrow> error + jsnum" where
  "calculateStandardDeduction_value filingStatus_arg age_arg =
     (case to_string filingStatus_arg of
        Inl e \<Rightarrow> Inl e
      | Inr k \<Rightarrow>
          (case get_property standardDeductions k of
             Inherited \<Rightarrow> Inr NaN
           | p \<Rightarrow>
               let deduction = (case p of Own d \<Rightarrow> Fin d | _ \<Rightarrow> Fin 13850)
               in if age_arg \<ge> 65
                  then Inr (js_add deduction
                         (if filingStatus_arg = Str ''married'' then Fin 1500 else Fin 1850))
                  else Inr deduction))"

definition calculateEITC_value :: "jsnum \<Rightarrow> js_value \<Rightarrow> int \<Rightarrow> jsnum" where
  "calculateEITC_value income_arg filingStatus_arg children =
     (let childCount = min children 3
      in case map_of eitcLimits childCount of
           None \<Rightarrow> Fin 0
         | Some limits \<Rightarrow>
             let incomeLimit = (if filingStatus_arg = Str ''married'' then married limits
                                else single limits)
             in if js_gt income_arg incomeLimit then Fin 0 else credit limits)"

text \<open>The twelve fields that the handler reads, and a body as the value of each.\<close>

datatype key =
    K_filingStatus | K_income | K_age | K_dependents | K_itemizedDeductions
  | K_useStandardDeduction | K_w2Income | K_selfEmploymentIncome | K_interestIncome
  | K_dividendIncome | K_capitalGains | K_otherIncome

type_synonym body = "key \<Rightarrow> js_value"

text \<open>
  The \<open>try\<close> block after the guard: the conversions in the order of the source, each
  of which can throw, then the calculation. The response echoes the filing status as it
  came; \<open>result_filingStatus\<close> holds it when it is a string and is empty otherwise, and
  no statement about bodies reads that field.
\<close>

definition bind_error :: "error + 'a \<Rightarrow> ('a \<Rightarrow> error + 'b) \<Rightarrow> error + 'b" where
  "bind_error m f = (case m of Inl e \<Rightarrow> Inl e | Inr x \<Rightarrow> f x)"

definition try_block ::
  "body \<Rightarrow> (string \<times> string \<times> nat) list option \<Rightarrow> error + tax_result" where
  "try_block b fl =
     bind_error (number_value (b K_income)) (\<lambda>totalIncome.
     bind_error (integer_value (b K_age)) (\<lambda>userAge.
     bind_error (integer_value (b K_dependents)) (\<lambda>numDependents.
     bind_error (number_value (b K_itemizedDeductions)) (\<lambda>itemizedDeductionAmount.
     bind_error (number_value (b K_w2Income)) (\<lambda>w2.
     bind_error (number_value (b K_selfEmploymentIncome)) (\<lambda>selfEmployment.
     bind_error (number_value (b K_interestIncome)) (\<lambda>interest.
     bind_error (number_value (b K_dividendIncome)) (\<lambda>dividends.
     bind_error (number_value (b K_capitalGains)) (\<lambda>capGains.
     bind_error (number_value (b K_otherIncome)) (\<lambda>other.
     let totalGrossIncome =
           js_add (js_add (js_add (js_add (js_add (js_add totalIncome w2) selfEmployment)
             interest) dividends) capGains) other
     in
     bind_error (calculateStandardDeduction_value (b K_filingStatus) userAge)
       (\<lambda>standardDeduction.
     let deductionAmount =
           (if b K_useStandardDeduction = Str ''false''
            then Math_max itemizedDeductionAmount standardDeduction
            else standardDeduction)
     in
     bind_error (calculateTax_value totalGrossIncome (b K_filingStatus) deductionAmount)
       (\<lambda>federalTax.
     let eitc = calculateEITC_value totalGrossIncome (b K_filingStatus) numDependents;
         selfEmploymentTax = js_mul selfEmployment (Fin (1413 / 10000));
         totalTaxLiability = js_sub (js_add federalTax selfEmploymentTax) eitc;
         estimatedWithholding = js_mul w2 (Fin (20 / 100));
         refundOrOwed = js_sub estimatedWithholding totalTaxLiability
     in Inr \<lparr>taxYear = 2024,
             result_filingStatus = (case b K_filingStatus of Str s \<Rightarrow> s | _ \<Rightarrow> []),
             taxpayerInfo_age = userAge,
             taxpayerInfo_dependents = numDependents,
             income_totalGrossIncome = totalGrossIncome,
             breakdown_primary = totalIncome,
             breakdown_w2 = w2,
             breakdown_selfEmployment = selfEmployment,
             breakdown_interest = interest,
             breakdown_dividends = dividends,
             breakdown_capitalGains = capGains,
             breakdown_other = other,
             deductions_standardDeduction = standardDeduction,
             deductions_itemizedDeductions = itemizedDeductionAmount,
             deductions_deductionUsed = deductionAmount,
             deductions_deductionType =
               (if b K_useStandardDeduction = Str ''false'' then ''itemized''
                else ''standard''),
             taxCalculation_taxableIncome =
               Math_max (Fin 0) (js_sub totalGrossIncome deductionAmount),
             taxCalculation_federalIncomeTax = federalTax,
             taxCalculation_selfEmploymentTax = selfEmploymentTax,
             taxCalculation_earnedIncomeCredit = eitc,
             taxCalculation_totalTaxLiability = Math_max (Fin 0) totalTaxLiability,
             refundOrOwed_estimatedWithholding = estimatedWithholding,
             refundOrOwed_amount = refundOrOwed,
             refundOrOwed_type = (if js_ge refundOrOwed (Fin 0) then ''refund''
                                  else ''owed''),
             uploadedDocuments = (case fl of Some l \<Rightarrow> l | None \<Rightarrow> [])\<rparr>))))))))))))"

text \<open>
  The handler on a body: 400 when a required field is falsy, 500 when the \<open>try\<close>
  block throws, the result otherwise.
\<close>

definition calculate_tax_body ::
  "body \<Rightarrow> (string \<times> string \<times> nat) list option \<Rightarrow> error + tax_result" where
  "calculate_tax_body b fl =
     (if \<not> truthy (b K_filingStatus) \<or> \<not> truthy (b K_income) then Inl ValidationError
      else case try_block b fl of
             Inl e \<Rightarrow> Inl ComputationError
           | Inr r \<Rightarrow> Inr r)"

text \<open>
  A request whose fields are strings or absent, as a body. Lemma
  \<open>calculate_tax_body_of\<close> shows that on these bodies the handler is
  \<open>calculate_tax_handler\<close>.
\<close>

definition string_value :: "string option \<Rightarrow> js_value" where
  "string_value f = (case f of None \<Rightarrow> Absent | Some s \<Rightarrow> Str s)"

definition body_of :: "request \<Rightarrow> body" where
  "body_of req k =
     string_value
       (case k of
          K_filingStatus \<Rightarrow> filingStatus req
        | K_income \<Rightarrow> income req
        | K_age \<Rightarrow> age req
        | K_dependents \<Rightarrow> dependents req
        | K_itemizedDeductions \<Rightarrow> itemizedDeductions req
        | K_useStandardDeduction \<Rightarrow> useStandardDeduction req
        | K_w2Income \<Rightarrow> w2Income req
        | K_selfEmploymentIncome \<Rightarrow> selfEmploymentIncome req
        | K_interestIncome \<Rightarrow> interestIncome req
        | K_dividendIncome \<Rightarrow> dividendIncome req
        | K_capitalGains \<Rightarrow> capitalGains req
        | K_otherIncome \<Rightarrow> otherIncome req)"


text \<open>
  A body with an unknown filing status, an income that is not a number, the age
  \<open>true\<close>, twelve dependents and the W-2 income as the number 12.5; and the result that
  the handler gives for it.
\<close>

definition messy_body :: body where
  "messy_body =
     (\<lambda>k. Absent)(K_filingStatus := Str ''widow'', K_income := Str ''abc'',
                    K_age := NonStr True ''true'', K_dependents := Str ''12'',
                    K_w2Income := NonStr True ''12.5'')"


section \<open>The bracket walk on finite amounts\<close>

text \<open>
  Auxiliary notions for the proofs about \<open>calculateTax\<close>. A bracket table is seen as a
  schedule: for each bracket its width \<open>max - min + 1\<close> (\<open>None\<close> when unbounded) and
  its rate. \<open>progressive_tax\<close> is the tax of a schedule on a finite taxable income,
  before rounding; lemma \<open>fst_walk_brackets\<close> shows that the loop computes it.
\<close>

definition schedule_entry :: "bracket \<Rightarrow> rat option \<times> rat" where
  "schedule_entry b =
     ((case js_add (js_sub (max_bound b) (min_bound b)) (Fin 1) of
         Fin w \<Rightarrow> Some w | _ \<Rightarrow> None),
      (case rate b of Fin q \<Rightarrow> q | _ \<Rightarrow> 0))"

fun progressive_tax :: "(rat option \<times> rat) list \<Rightarrow> rat \<Rightarrow> rat" where
  "progressive_tax [] r = 0"
| "progressive_tax ((w, q) # sch) r =
     (if r \<le> 0 then 0
      else case w of
             None \<Rightarrow> r * q
           | Some w \<Rightarrow> min r w * q + progressive_tax sch (r - min r w))"

text \<open>
  A regular bracket has finite bounds in order, or no upper bound, and a rate between 0
  and the top rate of 37%.
\<close>

definition regular :: "bracket \<Rightarrow> bool" where
  "regular b =
     (case (min_bound b, max_bound b, rate b) of
        (Fin lo, Fin hi, Fin q) \<Rightarrow> lo \<le> hi \<and> 0 \<le> q \<and> q \<le> 37 / 100
      | (Fin lo, PosInf, Fin q) \<Rightarrow> 0 \<le> q \<and> q \<le> 37 / 100
      | _ \<Rightarrow> False)"

definition good_entry :: "rat option \<times> rat \<Rightarrow> bool" where
  "good_entry e =
     (0 \<le> snd e \<and> snd e \<le> 37 / 100 \<and> (case fst e of None \<Rightarrow> True | Some w \<Rightarrow> 0 < w))"

text \<open>
  The table that \<open>calculateTax\<close> walks for a filing status on which it does not
  throw.
\<close>

definition brackets_for :: "string \<Rightarrow> bracket list" where
  "brackets_for fs = (if fs = ''married'' then married_brackets else single_brackets)"

section \<open>The bracket tax in rounded arithmetic\<close>






text \<open>
  Rounding to the nearest number of a finite set \<open>G\<close> of numbers, the grid. The exact
  result \<open>x\<close> lies between the greatest number of the grid below it and the least above
  it; the nearer of the two is chosen, and on a tie the lower one when \<open>down\<close> says
  so.
\<close>

definition lower_neighbour :: "rat set \<Rightarrow> rat \<Rightarrow> rat" where
  "lower_neighbour G x = Max {y \<in> G. y \<le> x}"

definition upper_neighbour :: "rat set \<Rightarrow> rat \<Rightarrow> rat" where
  "upper_neighbour G x = Min {y \<in> G. x \<le> y}"

definition nearest :: "rat set \<Rightarrow> (rat \<Rightarrow> rat \<Rightarrow> bool) \<Rightarrow> rat \<Rightarrow> rat" where
  "nearest G down x =
     (let l = lower_neighbour G x; u = upper_neighbour G x
      in if x - l < u - x then l
         else if u - x < x - l then u
         else if down l u then l else u)"

text \<open>
  The greatest and the least number of the grid stand for the two infinities: a result
  that is rounded to one of them, or lies beyond, overflows.
\<close>

definition round_to_grid :: "rat set \<Rightarrow> (rat \<Rightarrow> rat \<Rightarrow> bool) \<Rightarrow> rat \<Rightarrow> jsnum" where
  "round_to_grid G down x =
     (if Max G \<le> x then PosInf
      else if x \<le> Min G then NegInf
      else let y = nearest G down x
           in if y = Max G then PosInf else if y = Min G then NegInf else Fin y)"

text \<open>
  Binary64. Its finite numbers are the \<open>m * 2 ^ e\<close> with \<open>\<bar>m\<bar> < 2 ^ 53\<close> and
  \<open>- 1074 \<le> e \<le> 971\<close>, written here as \<open>m * 2 ^ k / 2 ^ 1074\<close> with \<open>k \<le> 2045\<close>.
  The grid holds them and, for \<open>\<bar>m\<bar> = 2 ^ 53\<close> and \<open>k = 2045\<close>, the two numbers
  \<open>2 ^ 1024\<close> and \<open>- (2 ^ 1024)\<close> that stand for the infinities. A tie goes to the
  neighbour whose significand, counted in units of the gap between the two neighbours,
  is even. This is the rounding of IEEE 754 that JavaScript uses: to the nearest number,
  ties to even, with overflow to an infinity. The sign of zero is not modelled.
\<close>

definition binary64_grid :: "rat set" where
  "binary64_grid =
     (\<lambda>(m, k). of_int m * 2 ^ k / 2 ^ 1074) ` ({- (2 ^ 53) .. 2 ^ 53} \<times> {0 .. 2045})"

definition ties_to_even :: "rat \<Rightarrow> rat \<Rightarrow> bool" where
  "ties_to_even l u = even \<lfloor>l / (u - l)\<rfloor>"

definition binary64 :: "rat \<Rightarrow> jsnum" where
  "binary64 = round_to_grid binary64_grid ties_to_even"




section \<open>Evaluation\<close>

lemma floor_rat_numeral: "\<lfloor>(numeral a :: rat) / numeral b\<rfloor> = numeral a div numeral b"
  using floor_divide_of_int_eq [of "numeral a" "numeral b", where ?'a = rat] by simp

lemma floor_rat_half: "\<lfloor>(1::rat) / 2\<rfloor> = 0"
  by (simp add: floor_eq_iff)

lemmas number_defs = js_sub_def js_gt_def js_ge_def Math_max_def Math_min_def or_zero_def

lemmas parse_defs = parseFloat_def parseInt_def is_space_def is_digit_def is_hex_digit_def
  digits_value_def digit_value_def scale10_def float_field_def int_field_def falsy_def

lemmas table_defs = get_property_def object_prototype_names_def taxBrackets_def
  single_brackets_def married_brackets_def mk_bracket_def standardDeductions_def eitcLimits_def

lemmas calc_defs = calculateTax_def calculateStandardDeduction_def calculateEITC_def

lemmas handler_defs = calculate_tax_handler_def empty_request_def response_field_def Let_def

lemmas eval_defs = handler_defs number_defs parse_defs table_defs calc_defs
  floor_rat_numeral floor_rat_half

lemma handler_sample: "calculate_tax_handler sample_request = Inr sample_result"
  by (simp add: sample_request_def sample_result_def eval_defs)

lemma handler_low_income:
  "calculate_tax_handler low_income_request =
     Inr \<lparr>taxYear = 2024, result_filingStatus = ''single'',
          taxpayerInfo_age = 0, taxpayerInfo_dependents = 0,
          income_totalGrossIncome = Fin 1000, breakdown_primary = Fin 1000,
          breakdown_w2 = Fin 0, breakdown_selfEmployment = Fin 0,
          breakdown_interest = Fin 0, breakdown_dividends = Fin 0,
          breakdown_capitalGains = Fin 0, breakdown_other = Fin 0,
          deductions_standardDeduction = Fin 13850,
          deductions_itemizedDeductions = Fin 0,
          deductions_deductionUsed = Fin 13850,
          deductions_deductionType = ''standard'',
          taxCalculation_taxableIncome = Fin 0,
          taxCalculation_federalIncomeTax = Fin 0,
          taxCalculation_selfEmploymentTax = Fin 0,
          taxCalculation_earnedIncomeCredit = Fin 600,
          taxCalculation_totalTaxLiability = Fin 0,
          refundOrOwed_estimatedWithholding = Fin 0,
          refundOrOwed_amount = Fin 600, refundOrOwed_type = ''refund'',
          uploadedDocuments = []\<rparr>"
  by (simp add: low_income_request_def eval_defs)

section \<open>Facts about numbers\<close>






section \<open>Inherited names\<close>

lemma get_property_taxBrackets:
  "get_property taxBrackets fs =
     (if fs = ''single'' then Own single_brackets
      else if fs = ''married'' then Own married_brackets
      else if fs \<in> set object_prototype_names then Inherited else Undefined)"
  by (simp add: get_property_def taxBrackets_def)

lemma calculateTax_throws_iff:
  "(\<exists>e. calculateTax inc fs ded = Inl e) = (fs \<in> set object_prototype_names)"
  by (auto simp: calculateTax_def get_property_taxBrackets object_prototype_names_def Let_def)


section \<open>The handler's result\<close>

lemma handler_result:
  assumes "calculate_tax_handler req = Inr r"
  shows "\<not> falsy (filingStatus req)" and "\<not> falsy (income req)"
    and "filingStatus req = Some (result_filingStatus r)"
    and "result_filingStatus r \<notin> set object_prototype_names"
    and "breakdown_primary r = float_field (income req)"
    and "breakdown_w2 r = float_field (w2Income req)"
    and "breakdown_selfEmployment r = float_field (selfEmploymentIncome req)"
    and "breakdown_interest r = float_field (interestIncome req)"
    and "breakdown_dividends r = float_field (dividendIncome req)"
    and "breakdown_capitalGains r = float_field (capitalGains req)"
    and "breakdown_other r = float_field (otherIncome req)"
    and "income_totalGrossIncome r =
           js_add (js_add (js_add (js_add (js_add (js_add (breakdown_primary r)
             (breakdown_w2 r)) (breakdown_selfEmployment r)) (breakdown_interest r))
             (breakdown_dividends r)) (breakdown_capitalGains r)) (breakdown_other r)"
    and "taxpayerInfo_age r = int_field (age req)"
    and "taxpayerInfo_dependents r = int_field (dependents req)"
    and "deductions_standardDeduction r =
           calculateStandardDeduction (result_filingStatus r) (taxpayerInfo_age r)"
    and "deductions_itemizedDeductions r = float_field (itemizedDeductions req)"
    and "deductions_deductionUsed r =
           (if useStandardDeduction req = Some ''false''
            then Math_max (deductions_itemizedDeductions r) (deductions_standardDeduction r)
            else deductions_standardDeduction r)"
    and "calculateTax (income_totalGrossIncome r) (result_filingStatus r)
           (deductions_deductionUsed r) = Inr (taxCalculation_federalIncomeTax r)"
    and "taxCalculation_earnedIncomeCredit r =
           calculateEITC (income_totalGrossIncome r) (result_filingStatus r)
             (taxpayerInfo_dependents r)"
    and "taxCalculation_selfEmploymentTax r =
           js_mul (breakdown_selfEmployment r) (Fin (1413 / 10000))"
    and "taxCalculation_totalTaxLiability r =
           Math_max (Fin 0)
             (js_sub (js_add (taxCalculation_federalIncomeTax r)
                (taxCalculation_selfEmploymentTax r)) (taxCalculation_earnedIncomeCredit r))"
    and "refundOrOwed_estimatedWithholding r = js_mul (breakdown_w2 r) (Fin (20 / 100))"
    and "refundOrOwed_amount r =
           js_sub (refundOrOwed_estimatedWithholding r)
             (js_sub (js_add (taxCalculation_federalIncomeTax r)
                (taxCalculation_selfEmploymentTax r)) (taxCalculation_earnedIncomeCredit r))"
    and "refundOrOwed_type r =
           (if js_ge (refundOrOwed_amount r) (Fin 0) then ''refund'' else ''owed'')"
    and "taxCalculation_taxableIncome r =
           Math_max (Fin 0) (js_sub (income_totalGrossIncome r) (deductions_deductionUsed r))"
proof -
  from assms have v: "\<not> falsy (filingStatus req)" "\<not> falsy (income req)"
    by (auto simp: calculate_tax_handler_def split: if_splits)
  then obtain fs where fs: "filingStatus req = Some fs"
    by (auto simp: falsy_def)
  let ?total = "js_add (js_add (js_add (js_add (js_add (js_add (float_field (income req))
       (float_field (w2Income req))) (float_field (selfEmploymentIncome req)))
       (float_field (interestIncome req))) (float_field (dividendIncome req)))
       (float_field (capitalGains req))) (float_field (otherIncome req))"
  let ?sd = "calculateStandardDeduction fs (int_field (age req))"
  let ?ded = "if useStandardDeduction req = Some ''false''
      then Math_max (float_field (itemizedDeductions req)) ?sd else ?sd"
  let ?se = "js_mul (float_field (selfEmploymentIncome req)) (Fin (1413 / 10000))"
  let ?wh = "js_mul (float_field (w2Income req)) (Fin (20 / 100))"
  let ?eitc = "calculateEITC ?total fs (int_field (dependents req))"
  obtain t where t: "calculateTax ?total fs ?ded = Inr t"
    using assms v fs
    by (cases "calculateTax ?total fs ?ded") (simp_all add: calculate_tax_handler_def Let_def)
  have r: "r = 
     \<lparr>taxYear = 2024,
      result_filingStatus = fs,
      taxpayerInfo_age = int_field (age req),
      taxpayerInfo_dependents = int_field (dependents req),
      income_totalGrossIncome = ?total,
      breakdown_primary = float_field (income req),
      breakdown_w2 = float_field (w2Income req),
      breakdown_selfEmployment = float_field (selfEmploymentIncome req),
      breakdown_interest = float_field (interestIncome req),
      breakdown_dividends = float_field (dividendIncome req),
      breakdown_capitalGains = float_field (capitalGains req),
      breakdown_other = float_field (otherIncome req),
      deductions_standardDeduction = ?sd,
      deductions_itemizedDeductions = float_field (itemizedDeductions req),
      deductions_deductionUsed = ?ded,
      deductions_deductionType =
        (if useStandardDeduction req = Some ''false'' then ''itemized'' else ''standard''),
      taxCalculation_taxableIncome = Math_max (Fin 0) (js_sub ?total ?ded),
      taxCalculation_federalIncomeTax = t,
      taxCalculation_selfEmploymentTax = ?se,
      taxCalculation_earnedIncomeCredit = ?eitc,
      taxCalculation_totalTaxLiability = Math_max (Fin 0) (js_sub (js_add t ?se) ?eitc),
      refundOrOwed_estimatedWithholding = ?wh,
      refundOrOwed_amount = js_sub ?wh (js_sub (js_add t ?se) ?eitc),
      refundOrOwed_type =
        (if js_ge (js_sub ?wh (js_sub (js_add t ?se) ?eitc)) (Fin 0)
         then ''refund'' else ''owed''),
      uploadedDocuments = (case files req of Some fl \<Rightarrow> fl | None \<Rightarrow> [])\<rparr>"
    using assms v fs t by (simp add: calculate_tax_handler_def Let_def)
  have ni: "fs \<notin> set object_prototype_names"
    using t calculateTax_throws_iff [of ?total fs ?ded] by auto
  show "\<not> falsy (filingStatus req)" and "\<not> falsy (income req)" by (rule v)+
  show "filingStatus req = Some (result_filingStatus r)" by (simp add: r fs)
  show "result_filingStatus r \<notin> set object_prototype_names" using ni by (simp add: r)
  show "breakdown_primary r = float_field (income req)" by (simp add: r)
  show "breakdown_w2 r = float_field (w2Income req)" by (simp add: r)
  show "breakdown_selfEmployment r = float_field (selfEmploymentIncome req)" by (simp add: r)
  show "breakdown_interest r = float_field (interestIncome req)" by (simp add: r)
  show "breakdown_dividends r = float_field (dividendIncome req)" by (simp add: r)
  show "breakdown_capitalGains r = float_field (capitalGains req)" by (simp add: r)
  show "breakdown_other r = float_field (otherIncome req)" by (simp add: r)
  show "income_totalGrossIncome r =
           js_add (js_add (js_add (js_add (js_add (js_add (breakdown_primary r)
             (breakdown_w2 r)) (breakdown_selfEmployment r)) (breakdown_interest r))
             (breakdown_dividends r)) (breakdown_capitalGains r)) (breakdown_other r)"
    by (simp add: r)
  show "taxpayerInfo_age r = int_field (age req)" by (simp add: r)
  show "taxpayerInfo_dependents r = int_field (dependents req)" by (simp add: r)
  show "deductions_standardDeduction r =
           calculateStandardDeduction (result_filingStatus r) (taxpayerInfo_age r)"
    by (simp add: r)
  show "deductions_itemizedDeductions r = float_field (itemizedDeductions req)" by (simp add: r)
  show "deductions_deductionUsed r =
           (if useStandardDeduction req = Some ''false''
            then Math_max (deductions_itemizedDeductions r) (deductions_standardDeduction r)
            else deductions_standardDeduction r)"
    by (simp add: r)
  show "calculateTax (income_totalGrossIncome r) (result_filingStatus r)
           (deductions_deductionUsed r) = Inr (taxCalculation_federalIncomeTax r)"
    by (simp add: r t)
  show "taxCalculation_earnedIncomeCredit r =
           calculateEITC (income_totalGrossIncome r) (result_filingStatus r)
             (taxpayerInfo_dependents r)"
    by (simp add: r)
  show "taxCalculation_selfEmploymentTax r =
           js_mul (breakdown_selfEmployment r) (Fin (1413 / 10000))"
    by (simp add: r)
  show "taxCalculation_totalTaxLiability r =
           Math_max (Fin 0)
             (js_sub (js_add (taxCalculation_federalIncomeTax r)
                (taxCalculation_selfEmploymentTax r)) (taxCalculation_earnedIncomeCredit r))"
    by (simp add: r)
  show "refundOrOwed_estimatedWithholding r = js_mul (breakdown_w2 r) (Fin (20 / 100))"
    by (simp add: r)
  show "refundOrOwed_amount r =
           js_sub (refundOrOwed_estimatedWithholding r)
             (js_sub (js_add (taxCalculation_federalIncomeTax r)
                (taxCalculation_selfEmploymentTax r)) (taxCalculation_earnedIncomeCredit r))"
    by (simp add: r)
  show "refundOrOwed_type r =
           (if js_ge (refundOrOwed_amount r) (Fin 0) then ''refund'' else ''owed'')"
    by (simp add: r)
  show "taxCalculation_taxableIncome r =
           Math_max (Fin 0) (js_sub (income_totalGrossIncome r) (deductions_deductionUsed r))"
    by (simp add: r)
qed

lemma handler_Inr_iff:
  "(\<exists>r. calculate_tax_handler req = Inr r) =
     (\<not> falsy (filingStatus req) \<and> \<not> falsy (income req)
      \<and> (case filingStatus req of Some s \<Rightarrow> s | None \<Rightarrow> []) \<notin> set object_prototype_names)"
proof
  assume "\<exists>r. calculate_tax_handler req = Inr r"
  then obtain r where r: "calculate_tax_handler req = Inr r" ..
  note h = handler_result [OF r]
  show "\<not> falsy (filingStatus req) \<and> \<not> falsy (income req)
      \<and> (case filingStatus req of Some s \<Rightarrow> s | None \<Rightarrow> []) \<notin> set object_prototype_names"
    using h(1-4) by simp
next
  let ?fs = "case filingStatus req of Some s \<Rightarrow> s | None \<Rightarrow> []"
  assume a: "\<not> falsy (filingStatus req) \<and> \<not> falsy (income req)
      \<and> ?fs \<notin> set object_prototype_names"
  have ne: "calculateTax x ?fs y \<noteq> Inl e" for x y e
    using a calculateTax_throws_iff [of x ?fs y] by blast
  show "\<exists>r. calculate_tax_handler req = Inr r"
    using a by (simp add: calculate_tax_handler_def Let_def ne split: sum.splits)
qed

lemma handler_ValidationError_iff:
  "(calculate_tax_handler req = Inl ValidationError) =
     (falsy (filingStatus req) \<or> falsy (income req))"
  by (auto simp: calculate_tax_handler_def Let_def split: sum.splits)

lemma handler_inherited_status:
  "calculate_tax_handler inherited_status_request = Inl ComputationError"
  by (simp add: inherited_status_request_def eval_defs)

section \<open>Facts about parsing\<close>

lemma read_sign_no_minus: "CHR ''-'' \<notin> set s \<Longrightarrow> fst (read_sign s) = False"
  by (cases s) auto

lemma scale10_nonneg: "0 \<le> m \<Longrightarrow> 0 \<le> scale10 m e"
  by (simp add: scale10_def)

lemma parseFloat_nonneg:
  assumes "CHR ''-'' \<notin> set s"
  shows "parseFloat s = NaN \<or> js_le (Fin 0) (parseFloat s)"
proof -
  have "CHR ''-'' \<notin> set (dropWhile is_space s)"
    using assms set_dropWhileD by fastforce
  then have "fst (read_sign (dropWhile is_space s)) = False"
    by (rule read_sign_no_minus)
  then obtain u where u: "read_sign (dropWhile is_space s) = (False, u)"
    by (cases "read_sign (dropWhile is_space s)") auto
  show ?thesis
    by (auto simp: parseFloat_def u Let_def scale10_nonneg split: list.splits prod.splits if_splits)
qed

lemma float_field_nonneg:
  "CHR ''-'' \<notin> set s \<Longrightarrow> js_ge (float_field (Some s)) (Fin 0)"
  using parseFloat_nonneg [of s]
  by (auto simp: float_field_def or_zero_def js_ge_def)

section \<open>Facts about the bracket walk\<close>

lemma calculateTax_whole_cents:
  assumes "calculateTax inc fs ded = Inr (Fin t)"
  shows "whole_cents t"
proof -
  have *: "js_div (Math_round (js_mul x (Fin 100))) (Fin 100) = Fin t \<Longrightarrow> whole_cents t" for x
    by (cases x) (auto simp: whole_cents_def, metis)
  from assms show ?thesis
    by (auto simp: calculateTax_def Let_def split: option.splits dest: *)
qed

lemma regular_cases:
  assumes "regular b"
  obtains lo hi q where "min_bound b = Fin lo" "max_bound b = Fin hi" "rate b = Fin q"
      "lo \<le> hi" "0 \<le> q" "q \<le> 37 / 100"
  | lo q where "min_bound b = Fin lo" "max_bound b = PosInf" "rate b = Fin q"
      "0 \<le> q" "q \<le> 37 / 100"
  using assms by (auto simp: regular_def split: jsnum.splits)

lemma regular_good: "regular b \<Longrightarrow> good_entry (schedule_entry b)"
  by (erule regular_cases) (auto simp: good_entry_def schedule_entry_def js_sub_def)

lemma regular_tables: "list_all regular (brackets_for fs)"
  by (simp add: brackets_for_def single_brackets_def married_brackets_def mk_bracket_def
      regular_def)

lemma good_schedule: "list_all good_entry (map schedule_entry (brackets_for fs))"
  using regular_tables [of fs] by (induction "brackets_for fs") (auto simp: list_all_iff regular_good)

lemma progressive_tax_nonpos: "r \<le> 0 \<Longrightarrow> progressive_tax sch r = 0"
  by (cases sch) auto

text \<open>On regular brackets and finite amounts the loop adds the schedule's tax.\<close>

lemma fst_walk_brackets:
  "list_all regular bs \<Longrightarrow>
   fst (walk_brackets bs (Fin a, Fin r)) = Fin (a + progressive_tax (map schedule_entry bs) r)"
proof (induction bs arbitrary: a r)
  case Nil
  then show ?case by simp
next
  case (Cons b bs)
  from Cons.prems have b: "regular b" and bs: "list_all regular bs" by simp_all
  note IH = Cons.IH [OF bs]
  show ?case
  proof (cases "r \<le> 0")
    case True
    then show ?thesis by (simp add: schedule_entry_def split: prod.splits)
  next
    case False
    from b show ?thesis
    proof (cases rule: regular_cases)
      case (1 lo hi q)
      with False show ?thesis
        by (simp add: IH schedule_entry_def js_sub_def js_gt_def Math_min_def min_def
            progressive_tax_nonpos algebra_simps)
    next
      case (2 lo q)
      with False show ?thesis
        by (simp add: IH schedule_entry_def js_sub_def js_gt_def Math_min_def
            progressive_tax_nonpos)
    qed
  qed
qed

text \<open>
  The tax of a schedule is non-negative, grows with the income, and grows by at most
  37% of the added income.
\<close>

lemma progressive_tax_bounds:
  assumes "list_all good_entry sch" and "0 \<le> r1" and "r1 \<le> r2"
  shows "0 \<le> progressive_tax sch r1
       \<and> progressive_tax sch r1 \<le> progressive_tax sch r2
       \<and> progressive_tax sch r2 - progressive_tax sch r1 \<le> 37 / 100 * (r2 - r1)"
  using assms
proof (induction sch arbitrary: r1 r2)
  case Nil
  then show ?case by simp
next
  case (Cons e sch)
  obtain w q where e: "e = (w, q)" by (cases e)
  from Cons.prems have ge: "good_entry e" and sch: "list_all good_entry sch"
    by simp_all
  from ge e have q: "0 \<le> q" "q \<le> 37 / 100"
    by (simp_all add: good_entry_def)
  show ?case
  proof (cases w)
    case None
    have "progressive_tax (e # sch) r = r * q" if "0 \<le> r" for r
      using that by (simp add: e None)
    moreover have "0 \<le> r1 * q" using Cons.prems(2) q(1) by simp
    moreover have "r1 * q \<le> r2 * q" using Cons.prems(3) q(1) by (rule mult_right_mono)
    moreover have "(r2 - r1) * q \<le> (r2 - r1) * (37 / 100)"
      using Cons.prems(3) q(2) by (intro mult_left_mono) simp_all
    ultimately show ?thesis
      using Cons.prems(2,3) by (simp add: algebra_simps)
  next
    case (Some v)
    with ge e have v: "0 < v" by (simp add: good_entry_def)
    define t1 where "t1 = min r1 v"
    define t2 where "t2 = min r2 v"
    have eq: "progressive_tax (e # sch) r = min r v * q + progressive_tax sch (r - min r v)"
      if "0 \<le> r" for r
      using that v by (simp add: e Some progressive_tax_nonpos)
    have t: "0 \<le> t1" "t1 \<le> t2" "0 \<le> r1 - t1" "r1 - t1 \<le> r2 - t2"
      using Cons.prems(2,3) v by (simp_all add: t1_def t2_def min_def)
    note IH = Cons.IH [OF sch t(3) t(4)]
    have a: "0 \<le> t1 * q" using t(1) q(1) by simp
    have b: "t1 * q \<le> t2 * q" using t(2) q(1) by (rule mult_right_mono)
    have c: "(t2 - t1) * q \<le> (t2 - t1) * (37 / 100)"
      using t(2) q(2) by (intro mult_left_mono) simp_all
    have e1: "progressive_tax (e # sch) r1 = t1 * q + progressive_tax sch (r1 - t1)"
      using eq [of r1] Cons.prems(2) by (simp add: t1_def)
    have e2: "progressive_tax (e # sch) r2 = t2 * q + progressive_tax sch (r2 - t2)"
      using eq [of r2] Cons.prems(2,3) by (simp add: t2_def)
    show ?thesis
      unfolding e1 e2 using IH a b c by (simp add: algebra_simps)
  qed
qed

text \<open>Rounding to the cent keeps the order and adds less than one cent to a difference.\<close>

lemma round_cents_bounds:
  fixes x y :: rat
  assumes "0 \<le> x" and "x \<le> y"
  shows "0 \<le> (of_int \<lfloor>x * 100 + 1 / 2\<rfloor> :: rat) / 100"
    and "(of_int \<lfloor>x * 100 + 1 / 2\<rfloor> :: rat) / 100 \<le> of_int \<lfloor>y * 100 + 1 / 2\<rfloor> / 100"
    and "(of_int \<lfloor>y * 100 + 1 / 2\<rfloor> :: rat) / 100 - of_int \<lfloor>x * 100 + 1 / 2\<rfloor> / 100
           < (y - x) + 1 / 100"
proof -
  have "0 \<le> \<lfloor>x * 100 + 1 / 2\<rfloor>" using assms(1) by simp
  then show "0 \<le> (of_int \<lfloor>x * 100 + 1 / 2\<rfloor> :: rat) / 100" by simp
  have "\<lfloor>x * 100 + 1 / 2\<rfloor> \<le> \<lfloor>y * 100 + 1 / 2\<rfloor>"
    using assms(2) by (intro floor_mono) simp
  then show "(of_int \<lfloor>x * 100 + 1 / 2\<rfloor> :: rat) / 100 \<le> of_int \<lfloor>y * 100 + 1 / 2\<rfloor> / 100"
    by (simp add: divide_right_mono)
  have "(of_int \<lfloor>y * 100 + 1 / 2\<rfloor> :: rat) \<le> y * 100 + 1 / 2" by (rule of_int_floor_le)
  moreover have "x * 100 + 1 / 2 - 1 < (of_int \<lfloor>x * 100 + 1 / 2\<rfloor> :: rat)"
    by linarith
  ultimately show "(of_int \<lfloor>y * 100 + 1 / 2\<rfloor> :: rat) / 100 - of_int \<lfloor>x * 100 + 1 / 2\<rfloor> / 100
           < (y - x) + 1 / 100"
    by (simp add: field_simps)
qed

text \<open>
  \<open>calculateTax\<close> on finite amounts, for a filing status on which it does not throw:
  the schedule's tax on \<open>max(0, income - deductions)\<close>, rounded to the cent, a tie
  going up.
\<close>

lemma calculateTax_finite:
  assumes "fs \<notin> set object_prototype_names"
  shows "calculateTax (Fin i) fs (Fin d) =
           Inr (Fin (of_int \<lfloor>progressive_tax (map schedule_entry (brackets_for fs))
                                (max 0 (i - d)) * 100 + 1 / 2\<rfloor> / 100))"
proof -
  have m: "Math_max (Fin 0) (js_sub (Fin i) (Fin d)) = Fin (max 0 (i - d))"
    by (simp add: Math_max_def js_sub_def max_def)
  have g: "(case get_property taxBrackets fs of
              Own bs \<Rightarrow> Some bs | Undefined \<Rightarrow> Some single_brackets | Inherited \<Rightarrow> None)
           = Some (brackets_for fs)"
    using assms by (simp add: get_property_taxBrackets brackets_for_def)
  show ?thesis
    by (simp add: calculateTax_def g m fst_walk_brackets [OF regular_tables])
qed

lemma calculateTax_special:
  assumes "fs \<notin> set object_prototype_names"
  shows "calculateTax NaN fs ded = Inr (Fin 0)"
    and "calculateTax inc fs NaN = Inr (Fin 0)"
    and "calculateTax PosInf fs (Fin d) = Inr PosInf"
    and "calculateTax NegInf fs (Fin d) = Inr (Fin 0)"
proof -
  have g: "(case get_property taxBrackets fs of
              Own bs \<Rightarrow> Some bs | Undefined \<Rightarrow> Some single_brackets | Inherited \<Rightarrow> None)
           = Some (brackets_for fs)"
    using assms by (simp add: get_property_taxBrackets brackets_for_def)
  have n: "js_sub inc NaN = NaN" "js_sub NaN ded = NaN"
    by (cases inc; simp add: js_sub_def)+
  have w: "walk_brackets (brackets_for fs) (Fin 0, NaN) = (Fin 0, NaN)"
    by (simp add: brackets_for_def single_brackets_def married_brackets_def mk_bracket_def
        number_defs)
  show "calculateTax NaN fs ded = Inr (Fin 0)"
    by (simp add: calculateTax_def g n Math_max_def w floor_rat_half)
  show "calculateTax inc fs NaN = Inr (Fin 0)"
    by (simp add: calculateTax_def g n Math_max_def w floor_rat_half)
  show "calculateTax PosInf fs (Fin d) = Inr PosInf"
    by (simp add: calculateTax_def g brackets_for_def single_brackets_def married_brackets_def
        mk_bracket_def number_defs)
  show "calculateTax NegInf fs (Fin d) = Inr (Fin 0)"
    by (simp add: calculateTax_def g brackets_for_def single_brackets_def married_brackets_def
        mk_bracket_def number_defs floor_rat_half)
qed

text \<open>
  What \<open>calculateTax\<close> does for a filing status on which it does not throw: the
  result is a non-negative amount in whole cents, it is 0 when the income does not
  exceed the deductions, and income beyond the finite brackets is taxed at 37%.
\<close>

lemma schedule_single:
  "map schedule_entry single_brackets =
     [(Some 11001, 10 / 100), (Some 33725, 12 / 100), (Some 50650, 22 / 100),
      (Some 86675, 24 / 100), (Some 49200, 32 / 100), (Some 346875, 35 / 100),
      (None, 37 / 100)]"
  by (simp add: single_brackets_def mk_bracket_def schedule_entry_def js_sub_def)

lemma schedule_married:
  "map schedule_entry married_brackets =
     [(Some 22001, 10 / 100), (Some 67450, 12 / 100), (Some 101300, 22 / 100),
      (Some 173450, 24 / 100), (Some 98300, 32 / 100), (Some 231250, 35 / 100),
      (None, 37 / 100)]"
  by (simp add: married_brackets_def mk_bracket_def schedule_entry_def js_sub_def)

lemma top_rate_single:
  assumes "578126 \<le> x"
  shows "progressive_tax (map schedule_entry single_brackets) x
           = 17424235 / 100 + 37 / 100 * (x - 578126)"
  using assms by (simp add: schedule_single min_def algebra_simps)

lemma top_rate_married:
  assumes "693751 \<le> x"
  shows "progressive_tax (map schedule_entry married_brackets) x
           = 18660160 / 100 + 37 / 100 * (x - 693751)"
  using assms by (simp add: schedule_married min_def algebra_simps)

lemma calculateTax_regular_status:
  assumes "fs \<notin> set object_prototype_names"
  shows "\<exists>t. calculateTax (Fin i) fs (Fin d) = Inr (Fin t) \<and> 0 \<le> t \<and> whole_cents t"
    and "i \<le> d \<Longrightarrow> calculateTax (Fin i) fs (Fin d) = Inr (Fin 0)"
proof -
  let ?sch = "map schedule_entry (brackets_for fs)"
  have "0 \<le> progressive_tax ?sch (max 0 (i - d))"
    using progressive_tax_bounds [OF good_schedule, of "max 0 (i - d)" "max 0 (i - d)" fs]
    by simp
  then have "0 \<le> (of_int \<lfloor>progressive_tax ?sch (max 0 (i - d)) * 100 + 1 / 2\<rfloor> :: rat) / 100"
    by (rule round_cents_bounds(1) [OF _ order_refl])
  then show "\<exists>t. calculateTax (Fin i) fs (Fin d) = Inr (Fin t) \<and> 0 \<le> t \<and> whole_cents t"
    using calculateTax_finite [OF assms, of i d] calculateTax_whole_cents by blast
  assume "i \<le> d"
  then have "max 0 (i - d) = 0" by simp
  then show "calculateTax (Fin i) fs (Fin d) = Inr (Fin 0)"
    by (simp add: calculateTax_finite [OF assms] progressive_tax_nonpos floor_rat_half)
qed

lemma calculateTax_top_rate:
  assumes "fs \<notin> set object_prototype_names"
  shows "fs \<noteq> ''married'' \<Longrightarrow> 578126 \<le> i - d \<Longrightarrow>
           calculateTax (Fin i) fs (Fin d) =
             Inr (Fin (of_int \<lfloor>(17424235 / 100 + 37 / 100 * (i - d - 578126)) * 100 + 1 / 2\<rfloor>
                         / 100))"
    and "fs = ''married'' \<Longrightarrow> 693751 \<le> i - d \<Longrightarrow>
           calculateTax (Fin i) fs (Fin d) =
             Inr (Fin (of_int \<lfloor>(18660160 / 100 + 37 / 100 * (i - d - 693751)) * 100 + 1 / 2\<rfloor>
                         / 100))"
proof -
  assume fs: "fs \<noteq> ''married''" and x: "578126 \<le> i - d"
  have b: "brackets_for fs = single_brackets"
    using fs by (simp add: brackets_for_def)
  have m: "max 0 (i - d) = i - d"
    using x by simp
  show "calculateTax (Fin i) fs (Fin d) =
             Inr (Fin (of_int \<lfloor>(17424235 / 100 + 37 / 100 * (i - d - 578126)) * 100 + 1 / 2\<rfloor>
                         / 100))"
    unfolding calculateTax_finite [OF assms] b m top_rate_single [OF x] by (rule refl)
next
  assume fs: "fs = ''married''" and x: "693751 \<le> i - d"
  have b: "brackets_for fs = married_brackets"
    using fs by (simp add: brackets_for_def)
  have m: "max 0 (i - d) = i - d"
    using x by simp
  show "calculateTax (Fin i) fs (Fin d) =
             Inr (Fin (of_int \<lfloor>(18660160 / 100 + 37 / 100 * (i - d - 693751)) * 100 + 1 / 2\<rfloor>
                         / 100))"
    unfolding calculateTax_finite [OF assms] b m top_rate_married [OF x] by (rule refl)
qed





section \<open>Facts about request bodies\<close>

text \<open>On a body of strings the functions on values are the functions on strings.\<close>

lemma parse_undefined: "parseFloat ''undefined'' = NaN" "parseInt ''undefined'' = None"
  by (simp_all add: parse_defs)

lemma number_value_string: "number_value (string_value f) = Inr (float_field f)"
  by (cases f) (simp_all add: number_value_def float_field_def string_value_def to_string_def
      parse_undefined)

lemma integer_value_string: "integer_value (string_value f) = Inr (int_field f)"
  by (cases f) (simp_all add: integer_value_def int_field_def string_value_def to_string_def
      parse_undefined)

lemma truthy_string: "truthy (string_value f) = (\<not> falsy f)"
  by (cases f) (simp_all add: truthy_def falsy_def string_value_def)

lemma calculateStandardDeduction_value_Str:
  "calculateStandardDeduction_value (Str s) a = Inr (calculateStandardDeduction s a)"
  by (simp add: calculateStandardDeduction_value_def calculateStandardDeduction_def to_string_def
      Let_def split: property.splits)

lemma calculateEITC_value_Str: "calculateEITC_value x (Str s) n = calculateEITC x s n"
  by (simp add: calculateEITC_value_def calculateEITC_def Let_def split: option.splits)

lemma calculateTax_value_Str: "calculateTax_value x (Str s) d = calculateTax x s d"
  by (simp add: calculateTax_value_def to_string_def)

lemma string_value_Some: "string_value (Some s) = Str s"
  by (simp add: string_value_def)

lemma string_value_eq_Str: "(string_value f = Str s) = (f = Some s)"
  by (cases f) (simp_all add: string_value_def)

lemma calculate_tax_body_of:
  "calculate_tax_body (body_of req) (files req) = calculate_tax_handler req"
proof (cases "falsy (filingStatus req) \<or> falsy (income req)")
  case True
  then show ?thesis
    by (auto simp: calculate_tax_body_def calculate_tax_handler_def body_of_def truthy_string)
next
  case False
  then obtain s where s: "filingStatus req = Some s"
    by (auto simp: falsy_def)
  have t: "truthy (Str s)"
    using False s by (simp add: truthy_def falsy_def)
  show ?thesis
    using False
    by (simp add: calculate_tax_body_def try_block_def bind_error_def calculate_tax_handler_def s t
        calculateStandardDeduction_value_Str calculateEITC_value_Str calculateTax_value_Str
        body_of_def [of req] number_value_string integer_value_string truthy_string
        string_value_eq_Str string_value_Some Let_def split: sum.splits)
qed



















text \<open>The handler on the example body.\<close>

lemmas body_defs = calculate_tax_body_def try_block_def bind_error_def truthy_def
  to_string_def number_value_def integer_value_def calculateStandardDeduction_value_def
  calculateTax_value_def calculateEITC_value_def



lemma body_unconvertible:
  "calculate_tax_body (messy_body(K_income := Unconvertible)) None = Inl ComputationError"
  by (simp add: messy_body_def body_defs)

section \<open>Facts about the rounded bracket tax\<close>




































text \<open>
  Rounding to the nearest number of a grid that holds 0, a negative and a positive
  number is a rounding, whatever the rule for ties.
\<close>

lemma neighbours:
  assumes "finite G" and "G \<noteq> {}" and "Min G < x" and "x < Max G"
  shows "lower_neighbour G x \<in> G" and "lower_neighbour G x \<le> x"
    and "upper_neighbour G x \<in> G" and "x \<le> upper_neighbour G x"
    and "\<And>y. y \<in> G \<Longrightarrow> y \<le> x \<Longrightarrow> y \<le> lower_neighbour G x"
    and "\<And>y. y \<in> G \<Longrightarrow> x \<le> y \<Longrightarrow> upper_neighbour G x \<le> y"
proof -
  note ne = assms(2)
  let ?L = "{y \<in> G. y \<le> x}" and ?U = "{y \<in> G. x \<le> y}"
  have fin: "finite ?L" "finite ?U" using assms(1) by simp_all
  have "Min G \<in> ?L" using Min_in [OF assms(1) ne] assms(3) by simp
  then have L: "?L \<noteq> {}" by blast
  have "Max G \<in> ?U" using Max_in [OF assms(1) ne] assms(4) by simp
  then have U: "?U \<noteq> {}" by blast
  from Max_in [OF fin(1) L] show "lower_neighbour G x \<in> G" "lower_neighbour G x \<le> x"
    by (simp_all add: lower_neighbour_def)
  from Min_in [OF fin(2) U] show "upper_neighbour G x \<in> G" "x \<le> upper_neighbour G x"
    by (simp_all add: upper_neighbour_def)
  show "\<And>y. y \<in> G \<Longrightarrow> y \<le> x \<Longrightarrow> y \<le> lower_neighbour G x"
    using Max_ge [OF fin(1)] by (simp add: lower_neighbour_def)
  show "\<And>y. y \<in> G \<Longrightarrow> x \<le> y \<Longrightarrow> upper_neighbour G x \<le> y"
    using Min_le [OF fin(2)] by (simp add: upper_neighbour_def)
qed


lemma nearest_grid_point:
  assumes "finite G" and "Min G < x" and "x < Max G" and "x \<in> G"
  shows "nearest G down x = x"
proof -
  have ne: "G \<noteq> {}" using assms(4) by auto
  note n = neighbours [OF assms(1) ne assms(2,3)]
  have "lower_neighbour G x = x" using n(2) n(5) [OF assms(4)] by simp
  moreover have "upper_neighbour G x = x" using n(4) n(6) [OF assms(4)] by simp
  ultimately show ?thesis by (simp add: nearest_def)
qed





text \<open>
  Binary64 is a rounding, it rounds every rate of the two tables to a positive number,
  and it leaves the integers up to \<open>2 ^ 53\<close> unchanged.
\<close>

lemma binary64_grid_finite: "finite binary64_grid"
  by (simp add: binary64_grid_def)

lemma binary64_grid_member:
  "\<bar>m\<bar> \<le> 2 ^ 53 \<Longrightarrow> k \<le> 2045 \<Longrightarrow> of_int m * 2 ^ k / 2 ^ 1074 \<in> binary64_grid"
  unfolding binary64_grid_def by (rule image_eqI [of _ _ "(m, k)"]) auto








lemma binary64_representable:
  assumes "x \<in> binary64_grid" and "Min binary64_grid < x" and "x < Max binary64_grid"
  shows "binary64 x = Fin x"
  using nearest_grid_point [OF binary64_grid_finite assms(2,3,1)] assms(2,3)
  by (simp add: binary64_def round_to_grid_def)

lemma binary64_integer:
  assumes "\<bar>n\<bar> \<le> 2 ^ 53"
  shows "binary64 (of_int n) = Fin (of_int n)"
proof -
  have m: "of_int n \<in> binary64_grid"
    using binary64_grid_member [OF assms, of 1074] by simp
  have "(2::rat) ^ 1075 = 2 ^ 1074 * 2"
    by simp
  then have e: "of_int (2 ^ 53) * (2::rat) ^ 1075 / 2 ^ 1074 = 2 ^ 54"
    by simp
  have "(2::rat) ^ 54 \<in> binary64_grid"
    using binary64_grid_member [of "2 ^ 53" 1075] e by simp
  then have hi: "2 ^ 54 \<le> Max binary64_grid"
    by (rule Max_ge [OF binary64_grid_finite])
  have "of_int (- (2 ^ 53)) * (2::rat) ^ 1075 / 2 ^ 1074 = - (2 ^ 54)"
    using e by simp
  then have "- ((2::rat) ^ 54) \<in> binary64_grid"
    using binary64_grid_member [of "- (2 ^ 53)" 1075] by simp
  then have lo: "Min binary64_grid \<le> - (2 ^ 54)"
    by (rule Min_le [OF binary64_grid_finite])
  have "\<bar>(of_int n :: rat)\<bar> \<le> 2 ^ 53"
    using assms by (metis of_int_abs of_int_le_iff of_int_numeral of_int_power)
  then have "- (2 ^ 54) < (of_int n :: rat)" "(of_int n :: rat) < 2 ^ 54"
    by (simp_all add: abs_le_iff)
  with lo hi show ?thesis
    by (intro binary64_representable [OF m]) simp_all
qed

section \<open>The properties of the specification\<close>

subsection \<open>C1: total liability, refund or amount owed\<close>

text \<open>
  C1, counterexample. For a single filer with income 1000 the credit of 600 exceeds the
  tax of 0. The reported total liability is 0 and the withholding is 0, yet the amount
  is 600, not the withholding minus the reported liability.
\<close>

theorem C1_counterexample:
  "response_field refundOrOwed_amount (calculate_tax_handler low_income_request) = Some (Fin 600)
   \<and> response_field refundOrOwed_estimatedWithholding (calculate_tax_handler low_income_request)
       = Some (Fin 0)
   \<and> response_field taxCalculation_totalTaxLiability (calculate_tax_handler low_income_request)
       = Some (Fin 0)
   \<and> Fin 600 \<noteq> js_sub (Fin 0) (Fin 0)"
  by (simp add: handler_low_income response_field_def js_sub_def)

text \<open>
  C1, amended. For every request that is answered with a result, the reported total
  liability is max(0, federalTax + selfEmploymentTax - eitc); the amount is the
  estimated withholding minus the unclamped federalTax + selfEmploymentTax - eitc, which
  is the withholding minus the reported liability whenever that sum is not negative;
  and the type is refund when the amount is at least 0 and owed otherwise.
\<close>

theorem C1_liability_and_refund:
  assumes "calculate_tax_handler req = Inr r"
  shows "taxCalculation_totalTaxLiability r =
           Math_max (Fin 0)
             (js_sub (js_add (taxCalculation_federalIncomeTax r)
                (taxCalculation_selfEmploymentTax r)) (taxCalculation_earnedIncomeCredit r))
       \<and> refundOrOwed_amount r =
           js_sub (refundOrOwed_estimatedWithholding r)
             (js_sub (js_add (taxCalculation_federalIncomeTax r)
                (taxCalculation_selfEmploymentTax r)) (taxCalculation_earnedIncomeCredit r))
       \<and> (js_ge (js_sub (js_add (taxCalculation_federalIncomeTax r)
                (taxCalculation_selfEmploymentTax r)) (taxCalculation_earnedIncomeCredit r))
             (Fin 0) \<longrightarrow>
           refundOrOwed_amount r =
             js_sub (refundOrOwed_estimatedWithholding r) (taxCalculation_totalTaxLiability r))
       \<and> refundOrOwed_type r =
           (if js_ge (refundOrOwed_amount r) (Fin 0) then ''refund'' else ''owed'')"
proof -
  note h = handler_result [OF assms]
  let ?raw = "js_sub (js_add (taxCalculation_federalIncomeTax r)
                (taxCalculation_selfEmploymentTax r)) (taxCalculation_earnedIncomeCredit r)"
  have "Math_max (Fin 0) ?raw = ?raw" if "js_ge ?raw (Fin 0)"
    using that by (cases ?raw) (auto simp: Math_max_def js_ge_def)
  then show ?thesis
    using h(21,23,24) by simp
qed

text \<open>
  C1, witness: the sample request is answered with a result, whose liability of
  7720.56065 is not negative.
\<close>

theorem C1_witness:
  "calculate_tax_handler sample_request = Inr sample_result
   \<and> taxCalculation_totalTaxLiability sample_result = Fin (772056065 / 100000)
   \<and> refundOrOwed_amount sample_result = Fin (400000200 / 100000 - 772056065 / 100000)
   \<and> refundOrOwed_type sample_result = ''owed''"
  using C1_liability_and_refund [OF handler_sample] handler_sample
  by (simp add: sample_result_def)

subsection \<open>C2: the married scenario\<close>

text \<open>
  C2, counterexample. For the married filer with W-2 income 30000 and two dependents
  the amount is 12374, not 6000.
\<close>

theorem C2_counterexample:
  "response_field refundOrOwed_amount (calculate_tax_handler scenario_married)
     = Some (Fin 12374)
   \<and> Fin 12374 \<noteq> Fin 6000"
  by (simp add: scenario_married_def eval_defs)

text \<open>
  C2, amended. The married filer with income 0, W-2 income 30000, no self-employment
  income and two dependents gets total gross income 30000, credit 6604, deduction
  27700, taxable income 2300, federal tax 230, reported total liability 0 and
  withholding 6000. The amount is 6000 - (230 + 0 - 6604) = 12374, of type refund: the
  credit beyond the tax is paid out.
\<close>

theorem C2_scenario_married:
  "calculate_tax_handler scenario_married =
     Inr \<lparr>taxYear = 2024, result_filingStatus = ''married'',
          taxpayerInfo_age = 0, taxpayerInfo_dependents = 2,
          income_totalGrossIncome = Fin 30000, breakdown_primary = Fin 0,
          breakdown_w2 = Fin 30000, breakdown_selfEmployment = Fin 0,
          breakdown_interest = Fin 0, breakdown_dividends = Fin 0,
          breakdown_capitalGains = Fin 0, breakdown_other = Fin 0,
          deductions_standardDeduction = Fin 27700,
          deductions_itemizedDeductions = Fin 0,
          deductions_deductionUsed = Fin 27700,
          deductions_deductionType = ''standard'',
          taxCalculation_taxableIncome = Fin 2300,
          taxCalculation_federalIncomeTax = Fin 230,
          taxCalculation_selfEmploymentTax = Fin 0,
          taxCalculation_earnedIncomeCredit = Fin 6604,
          taxCalculation_totalTaxLiability = Fin 0,
          refundOrOwed_estimatedWithholding = Fin 6000,
          refundOrOwed_amount = Fin 12374,
          refundOrOwed_type = ''refund'', uploadedDocuments = []\<rparr>"
  by (simp add: scenario_married_def eval_defs)

subsection \<open>C3: the single scenario\<close>

text \<open>
  C3, evaluated on the code. The single filer with income 50000, age 30 and no
  dependents gets deduction 13850 and taxable income 36150, but the federal tax is
  4117.98, not 4118.00: the first bracket is walked with width \<open>11000 - 0 + 1 = 11001\<close>,
  so 11001 is taxed at 10% and the remaining 25149 at 12%. The total liability is
  4117.98 and the amount is -4117.98, of type owed.
\<close>

theorem C3_scenario_single:
  "calculate_tax_handler scenario_single =
     Inr \<lparr>taxYear = 2024, result_filingStatus = ''single'',
          taxpayerInfo_age = 30, taxpayerInfo_dependents = 0,
          income_totalGrossIncome = Fin 50000, breakdown_primary = Fin 50000,
          breakdown_w2 = Fin 0, breakdown_selfEmployment = Fin 0,
          breakdown_interest = Fin 0, breakdown_dividends = Fin 0,
          breakdown_capitalGains = Fin 0, breakdown_other = Fin 0,
          deductions_standardDeduction = Fin 13850,
          deductions_itemizedDeductions = Fin 0,
          deductions_deductionUsed = Fin 13850,
          deductions_deductionType = ''standard'',
          taxCalculation_taxableIncome = Fin 36150,
          taxCalculation_federalIncomeTax = Fin (411798 / 100),
          taxCalculation_selfEmploymentTax = Fin 0,
          taxCalculation_earnedIncomeCredit = Fin 0,
          taxCalculation_totalTaxLiability = Fin (411798 / 100),
          refundOrOwed_estimatedWithholding = Fin 0,
          refundOrOwed_amount = Fin (- (411798 / 100)),
          refundOrOwed_type = ''owed'', uploadedDocuments = []\<rparr>"
  by (simp add: scenario_single_def eval_defs)

subsection \<open>C4: the bracket tax function\<close>

text \<open>
  C4, evaluated on the code. A filing status other than married should use the single
  table. For the status \<open>constructor\<close> (and likewise \<open>toString\<close>)
  \<open>taxBrackets[filingStatus]\<close> is the function inherited from \<open>Object.prototype\<close>,
  the fallback \<open>|| taxBrackets.single\<close> is not taken, and the loop throws a
  \<open>TypeError\<close>; the handler answers 500. For every other status, and in the exact
  arithmetic of this model (the rounding of binary64 is not modelled), the function
  computes what the specification describes: see \<open>calculateTax_finite\<close>,
  \<open>fst_walk_brackets\<close>, \<open>calculateTax_regular_status\<close>, \<open>calculateTax_top_rate\<close> and
  \<open>calculateTax_special\<close>.
\<close>

theorem C4_inherited_status_throws:
  "calculateTax (Fin 50000) ''constructor'' (Fin 0) = Inl TypeError
   \<and> calculateTax (Fin 50000) ''toString'' (Fin 0) = Inl TypeError
   \<and> calculate_tax_handler inherited_status_request = Inl ComputationError"
  by (simp add: inherited_status_request_def eval_defs)

subsection \<open>C5: the earned income credit\<close>

text \<open>
  C5, counterexample. A count of -1 is not clamped to 0: at income 1000 the credit is
  0, while the row of 0 children gives 600.
\<close>

theorem C5_counterexample:
  "calculateEITC (Fin 1000) ''single'' (- 1) = Fin 0
   \<and> calculateEITC (Fin 1000) ''single'' (max 0 (min (- 1) 3)) = Fin 600"
  by (simp add: calculateEITC_def eitcLimits_def js_gt_def)

text \<open>
  C5, amended. For every income, filing status and integer dependent count: a negative
  count gives credit 0; otherwise the count is capped at 3 (a count above 3 behaves as
  3), the row is 0: (17640, 23260, 600), 1: (46560, 52918, 3995), 2: (51567, 58250,
  6604), 3: (55529, 62044, 7430), the ceiling is the married one only for the status
  married, and the credit is 0 when the income exceeds the ceiling and the row's flat
  credit otherwise.
\<close>

theorem C5_calculateEITC:
  "calculateEITC inc fs n =
     (if n < 0 then Fin 0
      else
        let (singleCeiling, marriedCeiling, flatCredit) =
              (if n = 0 then (17640, 23260, 600)
               else if n = 1 then (46560, 52918, 3995)
               else if n = 2 then (51567, 58250, 6604)
               else (55529, 62044, 7430));
            ceiling = (if fs = ''married'' then marriedCeiling else singleCeiling)
        in if js_gt inc (Fin ceiling) then Fin 0 else Fin flatCredit)
   \<and> (3 \<le> n \<longrightarrow> calculateEITC inc fs n = calculateEITC inc fs 3)"
  by (simp add: calculateEITC_def eitcLimits_def min_def)

text \<open>
  C5, witness: at the married ceiling for two children the credit is 6604, one above it
  is 0, and five children behave as three.
\<close>

theorem C5_witness:
  "calculateEITC (Fin 58250) ''married'' 2 = Fin 6604
   \<and> calculateEITC (Fin 58251) ''married'' 2 = Fin 0
   \<and> calculateEITC (Fin 55529) ''single'' 5 = Fin 7430
   \<and> calculateEITC (Fin 55529) ''single'' 5 = calculateEITC (Fin 55529) ''single'' 3"
  using C5_calculateEITC [of "Fin 58250" "''married''" 2]
    C5_calculateEITC [of "Fin 58251" "''married''" 2]
    C5_calculateEITC [of "Fin 55529" "''single''" 5]
  by (auto simp: js_gt_def)

subsection \<open>C6: the deduction amount\<close>



subsection \<open>C7: validation\<close>




subsection \<open>C8: the income components\<close>

text \<open>
  C8, counterexample. A W-2 income of \<open>-5\<close> is parsed as -5: the component is negative.
\<close>

theorem C8_counterexample:
  "response_field breakdown_w2 (calculate_tax_handler negative_w2_request) = Some (Fin (- 5))
   \<and> js_lt (Fin (- 5)) (Fin 0)"
  by (simp add: negative_w2_request_def eval_defs)

text \<open>
  C8, amended. For every request that is answered with a result, each of the seven
  income components is the parsed value of its field, 0 when the field is absent or
  does not parse, and not negative when the field's text has no minus sign; the total
  gross income is the sum of the seven components.
\<close>

theorem C8_income_components:
  assumes "calculate_tax_handler req = Inr r"
  shows "breakdown_primary r = float_field (income req)
       \<and> breakdown_w2 r = float_field (w2Income req)
       \<and> breakdown_selfEmployment r = float_field (selfEmploymentIncome req)
       \<and> breakdown_interest r = float_field (interestIncome req)
       \<and> breakdown_dividends r = float_field (dividendIncome req)
       \<and> breakdown_capitalGains r = float_field (capitalGains req)
       \<and> breakdown_other r = float_field (otherIncome req)
       \<and> income_totalGrossIncome r =
           js_add (js_add (js_add (js_add (js_add (js_add (breakdown_primary r)
             (breakdown_w2 r)) (breakdown_selfEmployment r)) (breakdown_interest r))
             (breakdown_dividends r)) (breakdown_capitalGains r)) (breakdown_other r)
       \<and> float_field None = Fin 0
       \<and> (\<forall>s. parseFloat s = NaN \<longrightarrow> float_field (Some s) = Fin 0)
       \<and> (\<forall>s. parseFloat s \<noteq> NaN \<longrightarrow> float_field (Some s) = parseFloat s)
       \<and> (\<forall>s. CHR ''-'' \<notin> set s \<longrightarrow> js_ge (float_field (Some s)) (Fin 0))"
proof -
  note h = handler_result [OF assms]
  have "float_field None = Fin 0"
    by (simp add: float_field_def or_zero_def)
  moreover have "\<forall>s. parseFloat s = NaN \<longrightarrow> float_field (Some s) = Fin 0"
    by (simp add: float_field_def or_zero_def)
  moreover have "\<forall>s. parseFloat s \<noteq> NaN \<longrightarrow> float_field (Some s) = parseFloat s"
    by (simp add: float_field_def or_zero_def)
  moreover have "\<forall>s. CHR ''-'' \<notin> set s \<longrightarrow> js_ge (float_field (Some s)) (Fin 0)"
    by (simp add: float_field_nonneg)
  ultimately show ?thesis
    using h(5-12) by simp
qed

text \<open>
  C8, witness: the sample request has three income fields and leaves four absent; the
  text \<open>abc\<close> does not parse.
\<close>

theorem C8_witness:
  "calculate_tax_handler sample_request = Inr sample_result
   \<and> income sample_request = Some ''40000'' \<and> breakdown_primary sample_result = Fin 40000
   \<and> w2Income sample_request = Some ''20000.01''
   \<and> breakdown_w2 sample_result = Fin (2000001 / 100)
   \<and> interestIncome sample_request = None \<and> breakdown_interest sample_result = Fin 0
   \<and> income_totalGrossIncome sample_result
       = Fin (40000 + 2000001 / 100 + 1000050 / 100 + 0 + 0 + 0 + 0)
   \<and> parseFloat ''abc'' = NaN \<and> float_field (Some ''abc'') = Fin 0"
  using C8_income_components [OF handler_sample] handler_sample
  by (simp add: sample_result_def sample_request_def empty_request_def parse_defs or_zero_def)

subsection \<open>C9: the bracket tax as a function of income\<close>




subsection \<open>C10: which outputs are rounded\<close>



end
